theory Spec2Isabelle
  imports Complex_Main "HOL-Library.Sublist"
begin

section \<open>Strings of the source language\<close>

text \<open>
  The program is TypeScript. Its strings are modelled as \<^typ>\<open>string\<close>: a list of
  code units below 256 (the Latin-1 range), so every function below gives the value the
  JavaScript built-in has on such strings. Code units above 255 are outside the model.
\<close>

definition toLowerChar :: "char \<Rightarrow> char" where
  "toLowerChar c =
     (let n = (of_char c :: nat)
      in if (65 \<le> n \<and> n \<le> 90) \<or> (192 \<le> n \<and> n \<le> 214) \<or> (216 \<le> n \<and> n \<le> 222)
         then char_of (n + 32) else c)"

definition toLowerCase :: "string \<Rightarrow> string" where
  "toLowerCase s = map toLowerChar s"

text \<open>
  White space as \<open>String.prototype.trim\<close> and the regular-expression class \<open>\\s\<close>
  know it: TAB, LF, VT, FF, CR, SPACE and NO-BREAK SPACE.
\<close>

definition is_space :: "char \<Rightarrow> bool" where
  "is_space c = ((of_char c :: nat) \<in> {9, 10, 11, 12, 13, 32, 160})"

definition js_trim :: "string \<Rightarrow> string" where
  "js_trim s = rev (dropWhile is_space (rev (dropWhile is_space s)))"

text \<open>\<open>hay.includes(needle)\<close>: does \<open>needle\<close> start at some position of \<open>hay\<close>?\<close>

fun str_includes :: "string \<Rightarrow> string \<Rightarrow> bool" where
  "str_includes [] needle = (needle = [])"
| "str_includes (c # s) needle = (prefix needle (c # s) \<or> str_includes s needle)"

section \<open>The answer grader\<close>

text \<open>
  A row of the \<open>questions\<close> table. \<open>questionType\<close> is a text column, so it is a
  string here; \<open>options\<close> is a nullable JSON column holding \<open>{id, text}\<close> pairs.
\<close>

record Option_rec =
  opt_id :: string
  opt_text :: string

record Question =
  q_id :: int
  q_examId :: int
  q_content :: string
  questionType :: string
  options :: "Option_rec list option"
  correctAnswer :: string
  q_topic :: "string option"
  q_difficulty :: "string option"

definition isAnswerCorrect :: "Question \<Rightarrow> string \<Rightarrow> bool" where
  "isAnswerCorrect question answer =
     (if questionType question = ''multiple-choice''
      then toLowerCase answer = toLowerCase (correctAnswer question)
      else if questionType question = ''short-answer''
      then (let cleanAnswer = js_trim (toLowerCase answer);
                cleanCorrect = js_trim (toLowerCase (correctAnswer question))
            in cleanAnswer = cleanCorrect
               \<or> str_includes cleanCorrect cleanAnswer
               \<or> str_includes cleanAnswer cleanCorrect)
      else False)"

section \<open>Numbers in template strings\<close>

text \<open>
  An integer interpolated into a template string is written in decimal, with a minus
  sign when negative.
\<close>

definition digit_char :: "nat \<Rightarrow> char" where
  "digit_char d = char_of (48 + d)"

function show_nat :: "nat \<Rightarrow> string" where
  "show_nat n = (if n < 10 then [digit_char n] else show_nat (n div 10) @ [digit_char (n mod 10)])"
  by pat_completeness auto
termination
  by (relation "measure (\<lambda>n. n)") auto

declare show_nat.simps [simp del]

definition show_int :: "int \<Rightarrow> string" where
  "show_int i = (if i < 0 then CHR ''-'' # show_nat (nat (- i)) else show_nat (nat i))"

section \<open>Storage\<close>

text \<open>
  The tables the grading routes touch, as lists of rows in insertion order. Timestamps
  are numbers; \<open>None\<close> is SQL \<open>NULL\<close>. Serial ids come from a counter per table.
\<close>

record Exam_row =
  e_id :: int
  e_title :: string

record ExamAttempt =
  a_id :: int
  a_examId :: int
  startedAt :: nat
  completedAt :: "nat option"
  score :: "int option"
  maxScore :: int

record Answer =
  ans_id :: int
  attemptId :: int
  questionId :: int
  answer :: string
  isCorrect :: "bool option"

record InsertAnswer =
  ins_attemptId :: int
  ins_questionId :: int
  ins_answer :: string
  ins_isCorrect :: bool

record storage =
  exams :: "Exam_row list"
  questions :: "Question list"
  examAttempts :: "ExamAttempt list"
  answers :: "Answer list"
  next_attempt_id :: int
  next_answer_id :: int

definition getExam :: "storage \<Rightarrow> int \<Rightarrow> Exam_row option" where
  "getExam st i = find (\<lambda>e. e_id e = i) (exams st)"

definition getQuestionsByExamId :: "storage \<Rightarrow> int \<Rightarrow> Question list" where
  "getQuestionsByExamId st examId = filter (\<lambda>q. q_examId q = examId) (questions st)"

definition createExamAttempt :: "storage \<Rightarrow> int \<Rightarrow> int \<Rightarrow> nat \<Rightarrow> storage \<times> ExamAttempt" where
  "createExamAttempt st examId maxSc now =
     (let attempt = \<lparr>a_id = next_attempt_id st, a_examId = examId, startedAt = now,
                      completedAt = None, score = None, maxScore = maxSc\<rparr>
      in (st\<lparr>examAttempts := examAttempts st @ [attempt],
              next_attempt_id := next_attempt_id st + 1\<rparr>, attempt))"

definition getExamAttempt :: "storage \<Rightarrow> int \<Rightarrow> ExamAttempt option" where
  "getExamAttempt st i = find (\<lambda>a. a_id a = i) (examAttempts st)"

text \<open>
  \<open>completeExamAttempt\<close> updates every row with the id and returns the first updated
  row; it throws when there is none (\<open>None\<close> here).
\<close>

definition completeExamAttempt ::
  "storage \<Rightarrow> int \<Rightarrow> int \<Rightarrow> nat \<Rightarrow> (storage \<times> ExamAttempt) option" where
  "completeExamAttempt st i sc now =
     (let upd = (\<lambda>a. if a_id a = i then a\<lparr>completedAt := Some now, score := Some sc\<rparr> else a);
          st' = st\<lparr>examAttempts := map upd (examAttempts st)\<rparr>
      in case find (\<lambda>a. a_id a = i) (examAttempts st') of
           None \<Rightarrow> None
         | Some updatedAttempt \<Rightarrow> Some (st', updatedAttempt))"

definition createAnswer :: "storage \<Rightarrow> InsertAnswer \<Rightarrow> storage" where
  "createAnswer st ins =
     st\<lparr>answers := answers st @
            [\<lparr>ans_id = next_answer_id st, attemptId = ins_attemptId ins,
              questionId = ins_questionId ins, answer = ins_answer ins,
              isCorrect = Some (ins_isCorrect ins)\<rparr>],
        next_answer_id := next_answer_id st + 1\<rparr>"

definition getAnswersByAttemptId :: "storage \<Rightarrow> int \<Rightarrow> Answer list" where
  "getAnswersByAttemptId st i = filter (\<lambda>a. attemptId a = i) (answers st)"

section \<open>The attempt routes\<close>

text \<open>
  What a route sends back: an error status with its message, the validator's rejection
  of a malformed body (status 400), the created attempt (status 201), or the grading
  result: the completed attempt, the saved answers, the score and the maximum score.
\<close>

datatype response =
    Rejected nat string
  | Invalid_body
  | Created ExamAttempt
  | Graded ExamAttempt "Answer list" int int

record AnswerData =
  ad_questionId :: int
  ad_answer :: string

text \<open>\<open>POST /api/exams/:id/attempts\<close>. The id parameter is \<open>None\<close> when it is not a number.\<close>

definition startAttempt :: "storage \<Rightarrow> int option \<Rightarrow> nat \<Rightarrow> storage \<times> response" where
  "startAttempt st idParam now =
     (case idParam of
        None \<Rightarrow> (st, Rejected 400 ''Invalid exam ID'')
      | Some i \<Rightarrow>
          (case getExam st i of
             None \<Rightarrow> (st, Rejected 404 ''Exam not found'')
           | Some exam \<Rightarrow>
               (let qs = getQuestionsByExamId st (e_id exam);
                    (st', attempt) = createExamAttempt st (e_id exam) (int (length qs)) now
                in (st', Created attempt))))"

text \<open>\<open>new Map(questions.map(q => [q.id, q]))\<close>: a later entry replaces an earlier one.\<close>

definition questionsMap :: "Question list \<Rightarrow> (int \<rightharpoonup> Question)" where
  "questionsMap qs = foldl (\<lambda>m q. m(q_id q \<mapsto> q)) Map.empty qs"

text \<open>
  The loop over the submitted answers: it returns on the first unknown question id, and
  saves each answer before it looks at the next one.
\<close>

fun gradeAnswers ::
  "storage \<Rightarrow> ExamAttempt \<Rightarrow> (int \<rightharpoonup> Question) \<Rightarrow> AnswerData list \<Rightarrow> int
     \<Rightarrow> storage \<times> (response + int)" where
  "gradeAnswers st attempt qm [] sc = (st, Inr sc)"
| "gradeAnswers st attempt qm (answerData # rest) sc =
     (case qm (ad_questionId answerData) of
        None \<Rightarrow>
          (st, Inl (Rejected 400 (''Question with ID '' @ show_int (ad_questionId answerData)
                                   @ '' not found in this exam'')))
      | Some question \<Rightarrow>
          (let correct = isAnswerCorrect question (ad_answer answerData);
               sc' = (if correct then sc + 1 else sc);
               st' = createAnswer st \<lparr>ins_attemptId = a_id attempt,
                       ins_questionId = ad_questionId answerData,
                       ins_answer = ad_answer answerData, ins_isCorrect = correct\<rparr>
           in gradeAnswers st' attempt qm rest sc'))"

text \<open>
  \<open>POST /api/attempts/:id/answers\<close>. The body is \<open>None\<close> when it is not an array of
  \<open>{questionId: number, answer: string}\<close>.
\<close>

definition submitAnswers ::
  "storage \<Rightarrow> int option \<Rightarrow> AnswerData list option \<Rightarrow> nat \<Rightarrow> storage \<times> response" where
  "submitAnswers st idParam body now =
     (case idParam of
        None \<Rightarrow> (st, Rejected 400 ''Invalid attempt ID'')
      | Some i \<Rightarrow>
          (case getExamAttempt st i of
             None \<Rightarrow> (st, Rejected 404 ''Exam attempt not found'')
           | Some attempt \<Rightarrow>
               if completedAt attempt \<noteq> None
               then (st, Rejected 400 ''Exam attempt already completed'')
               else (case body of
                  None \<Rightarrow> (st, Invalid_body)
                | Some batch \<Rightarrow>
                    (let qs = getQuestionsByExamId st (a_examId attempt)
                     in case gradeAnswers st attempt (questionsMap qs) batch 0 of
                          (st', Inl r) \<Rightarrow> (st', r)
                        | (st', Inr sc) \<Rightarrow>
                            (case completeExamAttempt st' (a_id attempt) sc now of
                               None \<Rightarrow> (st', Rejected 500 ''Failed to submit answers'')
                             | Some (st'', completedAttempt) \<Rightarrow>
                                 (st'', Graded completedAttempt
                                          (getAnswersByAttemptId st'' (a_id attempt))
                                          sc (maxScore attempt)))))))"

text \<open>An exam with one multiple-choice question, whose correct answer is option a.\<close>

definition one_question_db :: storage where
  "one_question_db =
     \<lparr>exams = [\<lparr>e_id = 1, e_title = ''Biology - Easy Difficulty Exam''\<rparr>],
      questions = [\<lparr>q_id = 1, q_examId = 1, q_content = ''Question 1'',
                    questionType = ''multiple-choice'',
                    options = Some [\<lparr>opt_id = ''a'', opt_text = ''first''\<rparr>,
                                    \<lparr>opt_id = ''b'', opt_text = ''second''\<rparr>],
                    correctAnswer = ''a'', q_topic = None, q_difficulty = None\<rparr>],
      examAttempts = [], answers = [], next_attempt_id = 1, next_answer_id = 1\<rparr>"

definition started_db :: storage where
  "started_db = fst (startAttempt one_question_db (Some 1) 100)"

definition completed_db :: storage where
  "completed_db =
     fst (submitAnswers started_db (Some 1) (Some [\<lparr>ad_questionId = 1, ad_answer = ''b''\<rparr>]) 200)"

text \<open>The number of entries of a batch that are graded correct.\<close>

definition countCorrect :: "(int \<rightharpoonup> Question) \<Rightarrow> AnswerData list \<Rightarrow> nat" where
  "countCorrect qm batch =
     length (filter (\<lambda>ad. case qm (ad_questionId ad) of
                            None \<Rightarrow> False
                          | Some q \<Rightarrow> isAnswerCorrect q (ad_answer ad)) batch)"

section \<open>Lines and regular expressions\<close>

text \<open>\<open>s.split('\\n')\<close>: the pieces between line feeds; the empty string has one piece.\<close>

fun split_lines :: "string \<Rightarrow> string list" where
  "split_lines [] = [[]]"
| "split_lines (c # s) =
     (if c = CHR 0x0A then [] # split_lines s
      else (case split_lines s of
              [] \<Rightarrow> [[c]]
            | l # ls \<Rightarrow> (c # l) # ls))"

text \<open>\<open>lines.join(' ')\<close>.\<close>

fun join_sp :: "string list \<Rightarrow> string" where
  "join_sp [] = []"
| "join_sp [l] = l"
| "join_sp (l # ls) = l @ CHR '' '' # join_sp ls"

text \<open>
  The regular expressions of the source are sequences of single-character items: one
  character of a class, an optional one (\<open>?\<close>), a greedy repetition (\<open>*\<close>) and a greedy
  repetition that takes at least one (\<open>+\<close>). \<open>rx_match\<close> is the backtracking matcher at
  the start of a string: a repetition first tries to take one more character, and gives it
  back when the rest of the pattern fails. It returns the text each item has consumed, so
  the text of a capture group around an item is that item's entry.
\<close>

datatype rx_item =
    One "char \<Rightarrow> bool"
  | Opt "char \<Rightarrow> bool"
  | Star "char \<Rightarrow> bool"
  | Plus "char \<Rightarrow> bool"

fun rx_match :: "rx_item list \<Rightarrow> string \<Rightarrow> string list option" where
  "rx_match [] s = Some []"
| "rx_match (One p # r) [] = None"
| "rx_match (One p # r) (c # t) =
     (if p c then map_option ((#) [c]) (rx_match r t) else None)"
| "rx_match (Opt p # r) [] = map_option ((#) []) (rx_match r [])"
| "rx_match (Opt p # r) (c # t) =
     (if p c
      then (case rx_match r t of
              Some gs \<Rightarrow> Some ([c] # gs)
            | None \<Rightarrow> map_option ((#) []) (rx_match r (c # t)))
      else map_option ((#) []) (rx_match r (c # t)))"
| "rx_match (Star p # r) [] = map_option ((#) []) (rx_match r [])"
| "rx_match (Star p # r) (c # t) =
     (if p c
      then (case rx_match (Star p # r) t of
              Some (g # gs) \<Rightarrow> Some ((c # g) # gs)
            | _ \<Rightarrow> map_option ((#) []) (rx_match r (c # t)))
      else map_option ((#) []) (rx_match r (c # t)))"
| "rx_match (Plus p # r) [] = None"
| "rx_match (Plus p # r) (c # t) =
     (if p c
      then (case rx_match (Star p # r) t of
              Some (g # gs) \<Rightarrow> Some ((c # g) # gs)
            | _ \<Rightarrow> None)
      else None)"

text \<open>\<open>text.match(rx)\<close> without the \<open>g\<close> flag: the match at the leftmost position.\<close>

fun rx_search :: "rx_item list \<Rightarrow> string \<Rightarrow> string list option" where
  "rx_search rx [] = rx_match rx []"
| "rx_search rx (c # s) =
     (case rx_match rx (c # s) of Some gs \<Rightarrow> Some gs | None \<Rightarrow> rx_search rx s)"

text \<open>
  Character classes. Under the \<open>i\<close> flag a lower-case ASCII letter of a pattern matches
  itself and its capital, and \<open>[a-z0-9\\s]\<close> matches the ASCII letters, the digits and
  white space.
\<close>

definition ci :: "char \<Rightarrow> char \<Rightarrow> bool" where
  "ci c d = (toLowerChar d = c)"

definition is_digit :: "char \<Rightarrow> bool" where
  "is_digit c = (let n = (of_char c :: nat) in 48 \<le> n \<and> n \<le> 57)"

definition is_ascii_letter :: "char \<Rightarrow> bool" where
  "is_ascii_letter c =
     (let n = (of_char c :: nat) in (65 \<le> n \<and> n \<le> 90) \<or> (97 \<le> n \<and> n \<le> 122))"

definition title_class :: "char \<Rightarrow> bool" where
  "title_class c = (is_ascii_letter c \<or> is_digit c \<or> is_space c)"

section \<open>The course title\<close>

text \<open>\<open>/label:?\\s*([a-z0-9\\s]+)/i\<close> for a lower-case label; group 1 is the last item.\<close>

definition label_rx :: "string \<Rightarrow> rx_item list" where
  "label_rx label =
     map (\<lambda>c. One (ci c)) label @ [Opt (\<lambda>c. c = CHR '':''), Star is_space, Plus title_class]"

definition firstLines :: "string \<Rightarrow> string" where
  "firstLines content = join_sp (take 10 (split_lines content))"

text \<open>\<open>a || b || c\<close> on match results: the first pattern that matches at all.\<close>

definition courseMatch :: "string \<Rightarrow> string list option" where
  "courseMatch text =
     (case rx_search (label_rx ''course'') text of
        Some gs \<Rightarrow> Some gs
      | None \<Rightarrow>
          (case rx_search (label_rx ''title'') text of
             Some gs \<Rightarrow> Some gs
           | None \<Rightarrow> rx_search (label_rx ''syllabus'') text))"

text \<open>\<open>filename.replace(/\\.(pdf|docx|txt)$/i, '')\<close>, then \<open>.replace(/_/g, ' ')\<close>.\<close>

definition ends_with_ci :: "string \<Rightarrow> string \<Rightarrow> bool" where
  "ends_with_ci ext s =
     (length ext \<le> length s \<and> toLowerCase (drop (length s - length ext) s) = ext)"

definition strip_extension :: "string \<Rightarrow> string" where
  "strip_extension filename =
     (if ends_with_ci ''.pdf'' filename \<or> ends_with_ci ''.txt'' filename
      then take (length filename - 4) filename
      else if ends_with_ci ''.docx'' filename
      then take (length filename - 5) filename
      else filename)"

definition filename_title :: "string \<Rightarrow> string" where
  "filename_title filename =
     map (\<lambda>c. if c = CHR ''_'' then CHR '' '' else c) (strip_extension filename)"

definition extractCourseTitle :: "string \<Rightarrow> string \<Rightarrow> string" where
  "extractCourseTitle content filename =
     (case courseMatch (firstLines content) of
        Some gs \<Rightarrow>
          if js_trim (last gs) \<noteq> [] then js_trim (last gs) else filename_title filename
      | None \<Rightarrow> filename_title filename)"

section \<open>The mock exam\<close>

datatype exam_type = MultipleChoice | ShortAnswer

datatype difficulty_level = Easy | Medium | Hard | Mixed

fun type_name :: "exam_type \<Rightarrow> string" where
  "type_name MultipleChoice = ''multiple-choice''"
| "type_name ShortAnswer = ''short-answer''"

fun difficulty_name :: "difficulty_level \<Rightarrow> string" where
  "difficulty_name Easy = ''easy''"
| "difficulty_name Medium = ''medium''"
| "difficulty_name Hard = ''hard''"
| "difficulty_name Mixed = ''mixed''"

text \<open>
  \<open>ExamConfig\<close>. The question count and the time limit have the source type
  \<open>number\<close>: a finite number, which need not be whole. The route accepts every
  count from 5 to 50, fractions included.
\<close>

record ExamConfig =
  cfg_type :: exam_type
  questionCount :: rat
  difficulty :: difficulty_level
  topics :: "string list"
  timeLimit :: "rat option"

text \<open>A generated question; \<open>g_options\<close> is absent on a short-answer question.\<close>

record GenQuestion =
  g_content :: string
  g_questionType :: string
  g_options :: "Option_rec list option"
  g_correctAnswer :: string
  g_topic :: string
  g_difficulty :: string

record Exam =
  title :: string
  exam_questions :: "GenQuestion list"

definition isTopicLine :: "string \<Rightarrow> bool" where
  "isTopicLine line =
     (str_includes line ''Topic'' \<or> str_includes line ''Learning''
      \<or> str_includes line ''Objective'' \<or> str_includes line ''Study''
      \<or> rx_match [Plus is_digit, One (\<lambda>c. c = CHR ''.'')] line \<noteq> None)"

definition relevantLines :: "string \<Rightarrow> string list" where
  "relevantLines syllabusContent =
     (let syllabusLines = split_lines syllabusContent;
          topicLines = filter isTopicLine syllabusLines
      in if length topicLines > 10 then take 10 topicLines
         else take (min (length syllabusLines) 20) syllabusLines)"

definition subjectAreas :: "string list" where
  "subjectAreas =
     [''Fundamental Concepts'', ''Key Principles'', ''Theoretical Frameworks'',
      ''Application Methods'', ''Historical Context'', ''Practical Skills'',
      ''Core Terminology'', ''Analysis Techniques'']"

text \<open>The body of the loop, for the index \<open>i\<close>.\<close>

definition mockQuestion :: "string list \<Rightarrow> ExamConfig \<Rightarrow> nat \<Rightarrow> GenQuestion" where
  "mockQuestion rel config i =
     (let baseText = (if length rel > i then rel ! i
                      else subjectAreas ! (i mod length subjectAreas));
          topic = (if length baseText > 30 then js_trim (take 30 baseText) @ ''...''
                   else js_trim baseText);
          diff = (if difficulty config = Mixed then [''easy'', ''medium'', ''hard''] ! (i mod 3)
                  else difficulty_name (difficulty config))
      in if cfg_type config = MultipleChoice
         then \<lparr>g_content = ''Question '' @ show_nat (i + 1)
                    @ '': Which of the following best describes '' @ [CHR 0x22] @ topic
                    @ [CHR 0x22] @ ''?'',
               g_questionType = ''multiple-choice'',
               g_options = Some
                 [\<lparr>opt_id = ''a'', opt_text = ''The primary framework for understanding '' @ topic\<rparr>,
                  \<lparr>opt_id = ''b'', opt_text = ''A secondary concept related to '' @ topic\<rparr>,
                  \<lparr>opt_id = ''c'', opt_text = ''An application method for '' @ topic\<rparr>,
                  \<lparr>opt_id = ''d'', opt_text = ''The historical development of '' @ topic\<rparr>],
               g_correctAnswer = ''a'', g_topic = topic, g_difficulty = diff\<rparr>
         else \<lparr>g_content = ''Question '' @ show_nat (i + 1)
                    @ '': Briefly explain the concept of '' @ [CHR 0x22] @ topic
                    @ [CHR 0x22] @ '' and its significance.'',
               g_questionType = ''short-answer'',
               g_options = None,
               g_correctAnswer = topic @ '' is a fundamental concept that involves understanding the core principles and applying them appropriately in context.'',
               g_topic = topic, g_difficulty = diff\<rparr>)"

text \<open>
  \<open>charAt(0).toUpperCase() + slice(1)\<close>; it is applied to the four difficulty names
  only, whose first letters are lower-case ASCII.
\<close>

definition capitalize :: "string \<Rightarrow> string" where
  "capitalize s =
     (case s of
        [] \<Rightarrow> []
      | c # r \<Rightarrow>
          (let n = (of_char c :: nat)
           in (if 97 \<le> n \<and> n \<le> 122 then char_of (n - 32) else c) # r))"

text \<open>
  The loop \<open>for (let i = 0; i < config.questionCount; i++)\<close>, from the index \<open>i\<close>
  on: it pushes one question per index as long as the index is below the count.
\<close>

function mockLoop :: "string list \<Rightarrow> ExamConfig \<Rightarrow> nat \<Rightarrow> GenQuestion list" where
  "mockLoop rel config i =
     (if of_nat i < questionCount config
      then mockQuestion rel config i # mockLoop rel config (i + 1)
      else [])"
  by pat_completeness auto
termination
proof (relation "measure (\<lambda>(rel, config, i). nat \<lceil>questionCount config\<rceil> - i)")
  show "wf (measure (\<lambda>(rel, config, i). nat \<lceil>questionCount config\<rceil> - i))"
    by simp
next
  fix rel :: "string list" and config :: ExamConfig and i :: nat
  assume "of_nat i < questionCount config"
  then have "int i < \<lceil>questionCount config\<rceil>"
    by (simp add: less_ceiling_iff)
  then show "((rel, config, i + 1), (rel, config, i))
               \<in> measure (\<lambda>(rel, config, i). nat \<lceil>questionCount config\<rceil> - i)"
    by simp
qed

declare mockLoop.simps [simp del]

definition generateMockExam :: "string \<Rightarrow> ExamConfig \<Rightarrow> string \<Rightarrow> Exam" where
  "generateMockExam syllabusContent config courseTitle =
     \<lparr>title = courseTitle @ '' - '' @ capitalize (difficulty_name (difficulty config))
                @ '' Difficulty Exam'',
      exam_questions = mockLoop (relevantLines syllabusContent) config 0\<rparr>"

section \<open>The exam synthesizer\<close>

text \<open>
  The values \<open>JSON.parse\<close> returns. The parser itself is a built-in of the language
  and is a parameter of the model: \<open>None\<close> is a \<open>SyntaxError\<close>.
\<close>

datatype json =
    JNull
  | JBool bool
  | JNum rat
  | JStr string
  | JArr "json list"
  | JObj "(string \<times> json) list"

definition safeJsonParse :: "(string \<Rightarrow> json option) \<Rightarrow> string \<Rightarrow> json" where
  "safeJsonParse parse jsonString =
     (if jsonString = [] then JObj []
      else (case parse jsonString of None \<Rightarrow> JObj [] | Some v \<Rightarrow> v))"

text \<open>
  The request sent to the model: the fixed instruction text is left out, the values
  interpolated into it are kept. The syllabus is cut to its first 15000 characters, and a
  time limit of 0 is not mentioned.
\<close>

record Prompt =
  p_syllabus :: string
  p_type :: string
  p_questionCount :: rat
  p_difficulty :: string
  p_timeLimit :: "rat option"

definition examPrompt :: "string \<Rightarrow> ExamConfig \<Rightarrow> Prompt" where
  "examPrompt syllabusContent config =
     \<lparr>p_syllabus = take 15000 syllabusContent,
      p_type = type_name (cfg_type config),
      p_questionCount = questionCount config,
      p_difficulty = difficulty_name (difficulty config),
      p_timeLimit = (case timeLimit config of
                       None \<Rightarrow> None
                     | Some t \<Rightarrow> if t = 0 then None else Some t)\<rparr>"

text \<open>\<open>responseText.match(/\\{[\\s\\S]*\\}/)\<close>: from the first \<open>{\<close> to the last \<open>}\<close>.\<close>

definition json_region :: "string \<Rightarrow> string option" where
  "json_region responseText =
     map_option concat
       (rx_search [One (\<lambda>c. c = CHR ''{''), Star (\<lambda>c. True), One (\<lambda>c. c = CHR ''}'')]
          responseText)"

text \<open>
  What \<open>generateExam\<close> resolves to: the parsed response of the model, whatever its
  shape, or the mock exam.
\<close>

datatype exam_result = Parsed json | Mock Exam

text \<open>
  \<open>generateExam\<close>. The call of the model is a parameter: it gives the response text,
  or \<open>Inl\<close> when \<open>generateContent\<close> or \<open>response.text()\<close> throws. The outer
  \<open>try\<close> guards the title and the prompt, which do not throw on strings.
\<close>

definition generateExam ::
  "(string \<Rightarrow> json option) \<Rightarrow> (Prompt \<Rightarrow> string + string) \<Rightarrow> string \<Rightarrow> ExamConfig \<Rightarrow> string
     \<Rightarrow> exam_result" where
  "generateExam parse generateContent syllabusContent config filename =
     (let courseTitle = extractCourseTitle syllabusContent filename;
          prompt = examPrompt syllabusContent config
      in case generateContent prompt of
           Inl aiError \<Rightarrow> Mock (generateMockExam syllabusContent config courseTitle)
         | Inr responseText \<Rightarrow>
             (let jsonContent = (case json_region responseText of
                                   Some m \<Rightarrow> m
                                 | None \<Rightarrow> ''{}'')
              in Parsed (safeJsonParse parse jsonContent)))"

definition sample_config :: ExamConfig where
  "sample_config = \<lparr>cfg_type = MultipleChoice, questionCount = 5, difficulty = Mixed,
                      topics = [], timeLimit = None\<rparr>"

text \<open>A configuration the route accepts, with a count that is not whole.\<close>

definition fractional_config :: ExamConfig where
  "fractional_config = \<lparr>cfg_type = MultipleChoice, questionCount = 11 / 2, difficulty = Mixed,
                          topics = [], timeLimit = None\<rparr>"

definition sample_syllabus :: string where
  "sample_syllabus = ''Course: Data Structures'' @ [CHR 0x0A] @ ''1. Topic: Lists and trees''"

text \<open>A stand-in for \<open>JSON.parse\<close> that knows the empty object only.\<close>

definition parse_empty_object :: "string \<Rightarrow> json option" where
  "parse_empty_object s = (if s = ''{}'' then Some (JObj []) else None)"

section \<open>The course title, described without the matcher\<close>

text \<open>
  The label at the start of a string, in any mix of cases, then an optional colon and
  white space. The capture is the longest run of ASCII letters, digits and white space
  that starts at the first character after that white space; when that character is not
  a letter or a digit, the capture is the last character of the white space; when there
  is no white space either, the label does not match here.
\<close>

definition starts_with :: "(char \<Rightarrow> bool) \<Rightarrow> string \<Rightarrow> bool" where
  "starts_with p s = (case s of [] \<Rightarrow> False | c # t \<Rightarrow> p c)"

definition capture_at :: "string \<Rightarrow> string \<Rightarrow> string option" where
  "capture_at label s =
     (if length label \<le> length s \<and> toLowerCase (take (length label) s) = label
      then (let r = drop (length label) s;
                r1 = (case r of [] \<Rightarrow> [] | c # t \<Rightarrow> if c = CHR '':'' then t else r);
                ws = takeWhile is_space r1;
                r2 = dropWhile is_space r1
            in if starts_with title_class r2 then Some (takeWhile title_class r2)
               else if ws \<noteq> [] then Some [last ws]
               else None)
      else None)"

text \<open>The capture at the leftmost position where the label matches.\<close>

fun label_capture :: "string \<Rightarrow> string \<Rightarrow> string option" where
  "label_capture label [] = capture_at label []"
| "label_capture label (c # s) =
     (case capture_at label (c # s) of
        Some cap \<Rightarrow> Some cap
      | None \<Rightarrow> label_capture label s)"

text \<open>The first label, in the order course, title, syllabus, that matches anywhere decides.\<close>

definition deciding_capture :: "string \<Rightarrow> string option" where
  "deciding_capture text =
     (case label_capture ''course'' text of
        Some cap \<Rightarrow> Some cap
      | None \<Rightarrow>
          (case label_capture ''title'' text of
             Some cap \<Rightarrow> Some cap
           | None \<Rightarrow> label_capture ''syllabus'' text))"

definition described_title :: "string \<Rightarrow> string \<Rightarrow> string" where
  "described_title content filename =
     (case deciding_capture (join_sp (take 10 (split_lines content))) of
        None \<Rightarrow> filename_title filename
      | Some cap \<Rightarrow> if js_trim cap = [] then filename_title filename else js_trim cap)"

definition two_label_syllabus :: string where
  "two_label_syllabus = ''Course: (CS101)'' @ [CHR 0x0A] @ ''Title: Algorithms''"

section \<open>Texts longer than the prompt's prefix\<close>

text \<open>The lines of a text that end with a line feed inside the text.\<close>

definition complete_lines :: "string \<Rightarrow> string list" where
  "complete_lines p = butlast (split_lines p)"

text \<open>One line of 15000 characters, and the same line followed by a second line.\<close>

definition long_syllabus :: string where
  "long_syllabus = replicate 15000 CHR ''x''"

definition extended_syllabus :: string where
  "extended_syllabus = long_syllabus @ [CHR 0x0A] @ ''course: Biology''"

text \<open>
  Eleven numbered lines, then one line that runs over the 15000th character, continued
  in two different ways.
\<close>

definition numbered_header :: string where
  "numbered_header = concat (replicate 11 (''1. Topic'' @ [CHR 0x0A]))"

definition stable_syllabus_a :: string where
  "stable_syllabus_a = numbered_header @ replicate 15000 CHR ''x'' @ '' course: Algebra''"

definition stable_syllabus_b :: string where
  "stable_syllabus_b = numbered_header @ replicate 15000 CHR ''x''
                        @ [CHR 0x0A] @ ''Study guide: Topology''"

section \<open>Facts about the string functions\<close>

lemma str_includes_sublist: "str_includes hay needle = sublist needle hay"
  by (induction hay) (simp_all add: sublist_Cons_right)

lemma str_includes_Nil [simp]: "str_includes hay []"
  by (simp add: str_includes_sublist)

lemma length_toLowerCase [simp]: "length (toLowerCase s) = length s"
  by (simp add: toLowerCase_def)

lemma toLowerCase_Nil_iff [simp]: "toLowerCase s = [] \<longleftrightarrow> s = []"
  by (simp add: toLowerCase_def)

lemma is_space_toLowerChar: "is_space c \<Longrightarrow> toLowerChar c = c"
  by (auto simp: is_space_def toLowerChar_def)

lemma js_trim_all_space:
  assumes "\<forall>c\<in>set s. is_space c"
  shows "js_trim s = []"
proof -
  from assms have d: "dropWhile is_space s = []" by simp
  show ?thesis unfolding js_trim_def d by simp
qed

lemma toLowerCase_all_space: "\<forall>c\<in>set s. is_space c \<Longrightarrow> toLowerCase s = s"
  by (induction s) (simp_all add: toLowerCase_def is_space_toLowerChar)

section \<open>Grading one answer\<close>

text \<open>
  C3. For a short-answer question, grading returns true exactly when, after lowercasing
  and trimming both strings, the cleaned submitted answer equals the cleaned correct
  answer, or occurs in it as a substring, or contains it as a substring.
\<close>

theorem short_answer_grading:
  assumes "questionType q = ''short-answer''"
  shows "isAnswerCorrect q a \<longleftrightarrow>
           js_trim (toLowerCase a) = js_trim (toLowerCase (correctAnswer q))
           \<or> sublist (js_trim (toLowerCase a)) (js_trim (toLowerCase (correctAnswer q)))
           \<or> sublist (js_trim (toLowerCase (correctAnswer q))) (js_trim (toLowerCase a))"
  using assms by (simp add: isAnswerCorrect_def str_includes_sublist Let_def)

theorem short_answer_grading_witness:
  "questionType \<lparr>q_id = 1, q_examId = 1, q_content = ''Name the process.'',
       questionType = ''short-answer'', options = None, correctAnswer = ''photosynthesis'',
       q_topic = None, q_difficulty = None\<rparr> = ''short-answer''
   \<and> isAnswerCorrect \<lparr>q_id = 1, q_examId = 1, q_content = ''Name the process.'',
       questionType = ''short-answer'', options = None, correctAnswer = ''photosynthesis'',
       q_topic = None, q_difficulty = None\<rparr> '' Photosynthesis ''"
proof -
  have lo: "js_trim (toLowerCase '' Photosynthesis '') = ''photosynthesis''"
    by code_simp
  have lo': "js_trim (toLowerCase ''photosynthesis'') = ''photosynthesis''"
    by code_simp
  show ?thesis
    using short_answer_grading [of "\<lparr>q_id = 1, q_examId = 1, q_content = ''Name the process.'',
       questionType = ''short-answer'', options = None, correctAnswer = ''photosynthesis'',
       q_topic = None, q_difficulty = None\<rparr>" "'' Photosynthesis ''"]
    by (simp add: lo lo')
qed

text \<open>The examples of the specification for short answers.\<close>

lemma short_answer_examples:
  fixes sa :: Question
  assumes "questionType sa = ''short-answer''" and "correctAnswer sa = ''photosynthesis''"
  shows "isAnswerCorrect sa ''Photosynthesis''"
    and "isAnswerCorrect sa ''the process of photosynthesis''"
    and "\<not> isAnswerCorrect sa ''respiration''"
proof -
  have c: "js_trim (toLowerCase ''photosynthesis'') = ''photosynthesis''"
    by code_simp
  have a1: "js_trim (toLowerCase ''Photosynthesis'') = ''photosynthesis''"
    by code_simp
  have a2: "js_trim (toLowerCase ''the process of photosynthesis'')
              = ''the process of photosynthesis''"
    by code_simp
  have a3: "js_trim (toLowerCase ''respiration'') = ''respiration''"
    by code_simp
  show "isAnswerCorrect sa ''Photosynthesis''"
    using assms by (simp add: isAnswerCorrect_def Let_def c a1)
  have "str_includes ''the process of photosynthesis'' ''photosynthesis''"
    by code_simp
  then show "isAnswerCorrect sa ''the process of photosynthesis''"
    using assms by (simp add: isAnswerCorrect_def Let_def c a2)
  have "\<not> str_includes ''photosynthesis'' ''respiration''"
    and "\<not> str_includes ''respiration'' ''photosynthesis''"
    by code_simp+
  then show "\<not> isAnswerCorrect sa ''respiration''"
    using assms by (simp add: isAnswerCorrect_def Let_def c a3)
qed

text \<open>
  C9. For a short-answer question, a submitted answer that is empty or consists only of
  white space is graded correct: trimmed, it is the empty string, which every cleaned
  correct answer contains.
\<close>

theorem blank_short_answer_is_correct:
  assumes "questionType q = ''short-answer''" and "\<forall>c\<in>set a. is_space c"
  shows "isAnswerCorrect q a"
proof -
  from assms(2) have "toLowerCase a = a"
    by (rule toLowerCase_all_space)
  with assms(2) have "js_trim (toLowerCase a) = []"
    by (simp add: js_trim_all_space)
  with assms(1) show ?thesis
    by (simp add: isAnswerCorrect_def Let_def)
qed

theorem blank_short_answer_is_correct_witness:
  "questionType \<lparr>q_id = 7, q_examId = 2, q_content = ''Define entropy.'',
       questionType = ''short-answer'', options = None,
       correctAnswer = ''a measure of disorder'', q_topic = None,
       q_difficulty = Some ''hard''\<rparr> = ''short-answer''
   \<and> list_all is_space ''   ''
   \<and> isAnswerCorrect \<lparr>q_id = 7, q_examId = 2, q_content = ''Define entropy.'',
       questionType = ''short-answer'', options = None,
       correctAnswer = ''a measure of disorder'', q_topic = None,
       q_difficulty = Some ''hard''\<rparr> ''   ''"
proof -
  have sp: "\<forall>c\<in>set ''   ''. is_space c"
    by (simp add: is_space_def)
  then have "list_all is_space ''   ''"
    by (simp add: list_all_iff)
  then show ?thesis
    using sp blank_short_answer_is_correct [of "\<lparr>q_id = 7, q_examId = 2,
       q_content = ''Define entropy.'', questionType = ''short-answer'', options = None,
       correctAnswer = ''a measure of disorder'', q_topic = None,
       q_difficulty = Some ''hard''\<rparr>" "''   ''"]
    by simp
qed

text \<open>
  C4 (as amended). For a multiple-choice question, grading returns true exactly when the
  submitted id and the correct answer are equal after lowercasing, so there is no partial
  credit. An empty submitted id is graded incorrect when the correct answer is not empty.
  A submitted id that matches none of the question's option ids (case-insensitively) is
  graded incorrect whenever the correct answer is the id of one of the options; the grader
  never reads the options itself.
\<close>

theorem multiple_choice_grading:
  assumes "questionType q = ''multiple-choice''"
  shows "(isAnswerCorrect q a \<longleftrightarrow> toLowerCase a = toLowerCase (correctAnswer q))
       \<and> (correctAnswer q \<noteq> [] \<longrightarrow> \<not> isAnswerCorrect q [])
       \<and> (\<forall>os. options q = Some os
              \<and> toLowerCase (correctAnswer q) \<in> set (map (toLowerCase \<circ> opt_id) os)
              \<and> toLowerCase a \<notin> set (map (toLowerCase \<circ> opt_id) os)
            \<longrightarrow> \<not> isAnswerCorrect q a)"
proof -
  have eq: "isAnswerCorrect q a \<longleftrightarrow> toLowerCase a = toLowerCase (correctAnswer q)" for a
    using assms by (simp add: isAnswerCorrect_def)
  have "correctAnswer q \<noteq> [] \<longrightarrow> \<not> isAnswerCorrect q []"
    by (auto simp: eq toLowerCase_def)
  moreover have "\<forall>os. options q = Some os
              \<and> toLowerCase (correctAnswer q) \<in> set (map (toLowerCase \<circ> opt_id) os)
              \<and> toLowerCase a \<notin> set (map (toLowerCase \<circ> opt_id) os)
            \<longrightarrow> \<not> isAnswerCorrect q a"
    by (auto simp: eq)
  ultimately show ?thesis
    using eq by blast
qed

theorem multiple_choice_grading_witness:
  "questionType \<lparr>q_id = 3, q_examId = 1, q_content = ''Pick one.'',
       questionType = ''multiple-choice'',
       options = Some [\<lparr>opt_id = ''a'', opt_text = ''first''\<rparr>,
                       \<lparr>opt_id = ''b'', opt_text = ''second''\<rparr>],
       correctAnswer = ''a'', q_topic = None, q_difficulty = None\<rparr> = ''multiple-choice''
   \<and> isAnswerCorrect \<lparr>q_id = 3, q_examId = 1, q_content = ''Pick one.'',
       questionType = ''multiple-choice'',
       options = Some [\<lparr>opt_id = ''a'', opt_text = ''first''\<rparr>,
                       \<lparr>opt_id = ''b'', opt_text = ''second''\<rparr>],
       correctAnswer = ''a'', q_topic = None, q_difficulty = None\<rparr> ''A''
   \<and> \<not> isAnswerCorrect \<lparr>q_id = 3, q_examId = 1, q_content = ''Pick one.'',
       questionType = ''multiple-choice'',
       options = Some [\<lparr>opt_id = ''a'', opt_text = ''first''\<rparr>,
                       \<lparr>opt_id = ''b'', opt_text = ''second''\<rparr>],
       correctAnswer = ''a'', q_topic = None, q_difficulty = None\<rparr> []
   \<and> \<not> isAnswerCorrect \<lparr>q_id = 3, q_examId = 1, q_content = ''Pick one.'',
       questionType = ''multiple-choice'',
       options = Some [\<lparr>opt_id = ''a'', opt_text = ''first''\<rparr>,
                       \<lparr>opt_id = ''b'', opt_text = ''second''\<rparr>],
       correctAnswer = ''a'', q_topic = None, q_difficulty = None\<rparr> ''z''"
proof -
  have lo: "toLowerCase ''A'' = ''a''" "toLowerCase ''a'' = ''a''"
    "toLowerCase ''b'' = ''b''" "toLowerCase ''z'' = ''z''"
    by code_simp+
  show ?thesis
    using multiple_choice_grading [of "\<lparr>q_id = 3, q_examId = 1, q_content = ''Pick one.'',
       questionType = ''multiple-choice'',
       options = Some [\<lparr>opt_id = ''a'', opt_text = ''first''\<rparr>,
                       \<lparr>opt_id = ''b'', opt_text = ''second''\<rparr>],
       correctAnswer = ''a'', q_topic = None, q_difficulty = None\<rparr>" "''A''"]
      multiple_choice_grading [of "\<lparr>q_id = 3, q_examId = 1, q_content = ''Pick one.'',
       questionType = ''multiple-choice'',
       options = Some [\<lparr>opt_id = ''a'', opt_text = ''first''\<rparr>,
                       \<lparr>opt_id = ''b'', opt_text = ''second''\<rparr>],
       correctAnswer = ''a'', q_topic = None, q_difficulty = None\<rparr>" "''z''"]
    by (simp add: lo)
qed

text \<open>
  The claim as first stated fails: nothing ties the correct answer to the options, so an
  id that is none of the options is graded correct when it equals the correct answer.
\<close>

theorem multiple_choice_unknown_id_counterexample:
  "questionType \<lparr>q_id = 4, q_examId = 1, q_content = ''Pick one.'',
       questionType = ''multiple-choice'',
       options = Some [\<lparr>opt_id = ''a'', opt_text = ''first''\<rparr>,
                       \<lparr>opt_id = ''b'', opt_text = ''second''\<rparr>],
       correctAnswer = ''e'', q_topic = None, q_difficulty = None\<rparr> = ''multiple-choice''
   \<and> correctAnswer \<lparr>q_id = 4, q_examId = 1, q_content = ''Pick one.'',
       questionType = ''multiple-choice'',
       options = Some [\<lparr>opt_id = ''a'', opt_text = ''first''\<rparr>,
                       \<lparr>opt_id = ''b'', opt_text = ''second''\<rparr>],
       correctAnswer = ''e'', q_topic = None, q_difficulty = None\<rparr> \<noteq> []
   \<and> toLowerCase ''e'' \<notin> set (map (toLowerCase \<circ> opt_id)
         [\<lparr>opt_id = ''a'', opt_text = ''first''\<rparr>, \<lparr>opt_id = ''b'', opt_text = ''second''\<rparr>])
   \<and> isAnswerCorrect \<lparr>q_id = 4, q_examId = 1, q_content = ''Pick one.'',
       questionType = ''multiple-choice'',
       options = Some [\<lparr>opt_id = ''a'', opt_text = ''first''\<rparr>,
                       \<lparr>opt_id = ''b'', opt_text = ''second''\<rparr>],
       correctAnswer = ''e'', q_topic = None, q_difficulty = None\<rparr> ''e''"
proof -
  have lo: "toLowerCase ''e'' = ''e''" "toLowerCase ''a'' = ''a''" "toLowerCase ''b'' = ''b''"
    by code_simp+
  show ?thesis
    by (simp add: isAnswerCorrect_def lo)
qed

section \<open>Submitting answers\<close>

lemma gradeAnswers_known:
  "qm (ad_questionId ad) = Some q \<Longrightarrow>
     gradeAnswers st attempt qm (ad # rest) sc =
       gradeAnswers
         (createAnswer st \<lparr>ins_attemptId = a_id attempt, ins_questionId = ad_questionId ad,
            ins_answer = ad_answer ad, ins_isCorrect = isAnswerCorrect q (ad_answer ad)\<rparr>)
         attempt qm rest (if isAnswerCorrect q (ad_answer ad) then sc + 1 else sc)"
  by (simp add: Let_def)

lemma gradeAnswers_unknown:
  "qm (ad_questionId ad) = None \<Longrightarrow>
     gradeAnswers st attempt qm (ad # rest) sc =
       (st, Inl (Rejected 400 (''Question with ID '' @ show_int (ad_questionId ad)
                                @ '' not found in this exam'')))"
  by simp

lemma gradeAnswers_frame:
  "gradeAnswers st attempt qm batch sc = (st', r) \<Longrightarrow>
     examAttempts st' = examAttempts st \<and> questions st' = questions st \<and> exams st' = exams st
     \<and> next_attempt_id st' = next_attempt_id st"
proof (induction batch arbitrary: st sc)
  case Nil
  then show ?case by simp
next
  case (Cons ad rest)
  show ?case
  proof (cases "qm (ad_questionId ad)")
    case None
    with Cons.prems show ?thesis by (simp only: gradeAnswers_unknown) simp
  next
    case (Some q)
    with Cons.prems Cons.IH show ?thesis
      by (simp only: gradeAnswers_known) (fastforce simp: createAnswer_def)
  qed
qed

text \<open>What the loop has saved when it stops: the entries before the first unknown id.\<close>

lemma gradeAnswers_saved:
  "gradeAnswers st attempt qm batch sc = (st', r) \<Longrightarrow>
     map (\<lambda>a. (attemptId a, questionId a, answer a)) (answers st')
       = map (\<lambda>a. (attemptId a, questionId a, answer a)) (answers st)
         @ map (\<lambda>ad. (a_id attempt, ad_questionId ad, ad_answer ad))
             (takeWhile (\<lambda>ad. qm (ad_questionId ad) \<noteq> None) batch)"
proof (induction batch arbitrary: st sc)
  case Nil
  then show ?case by simp
next
  case (Cons ad rest)
  show ?case
  proof (cases "qm (ad_questionId ad)")
    case None
    with Cons.prems show ?thesis by (simp only: gradeAnswers_unknown) simp
  next
    case (Some q)
    from Cons.prems Some have
      "gradeAnswers
         (createAnswer st \<lparr>ins_attemptId = a_id attempt, ins_questionId = ad_questionId ad,
            ins_answer = ad_answer ad, ins_isCorrect = isAnswerCorrect q (ad_answer ad)\<rparr>)
         attempt qm rest (if isAnswerCorrect q (ad_answer ad) then sc + 1 else sc) = (st', r)"
      by (simp only: gradeAnswers_known)
    from Cons.IH [OF this] Some show ?thesis
      by (simp add: createAnswer_def)
  qed
qed

text \<open>The score the loop returns: one point for each entry graded correct.\<close>

lemma gradeAnswers_score:
  "gradeAnswers st attempt qm batch sc = (st', Inr sc') \<Longrightarrow>
     sc' = sc + int (countCorrect qm batch) \<and> list_all (\<lambda>ad. qm (ad_questionId ad) \<noteq> None) batch"
proof (induction batch arbitrary: st sc)
  case Nil
  then show ?case by (simp add: countCorrect_def)
next
  case (Cons ad rest)
  show ?case
  proof (cases "qm (ad_questionId ad)")
    case None
    with Cons.prems show ?thesis by (simp only: gradeAnswers_unknown) simp
  next
    case (Some q)
    from Cons.prems Some have
      "gradeAnswers
         (createAnswer st \<lparr>ins_attemptId = a_id attempt, ins_questionId = ad_questionId ad,
            ins_answer = ad_answer ad, ins_isCorrect = isAnswerCorrect q (ad_answer ad)\<rparr>)
         attempt qm rest (if isAnswerCorrect q (ad_answer ad) then sc + 1 else sc) = (st', Inr sc')"
      by (simp only: gradeAnswers_known)
    from Cons.IH [OF this] Some show ?thesis
      by (simp add: countCorrect_def)
  qed
qed


lemma gradeAnswers_Inl:
  "gradeAnswers st attempt qm batch sc = (st', Inl r) \<Longrightarrow> \<exists>msg. r = Rejected 400 msg"
proof (induction batch arbitrary: st sc)
  case Nil
  then show ?case by simp
next
  case (Cons ad rest)
  show ?case
  proof (cases "qm (ad_questionId ad)")
    case None
    with Cons.prems show ?thesis by (simp only: gradeAnswers_unknown) auto
  next
    case (Some q)
    with Cons.prems Cons.IH show ?thesis
      by (simp only: gradeAnswers_known)
  qed
qed

lemma questionsMap_dom_aux:
  "dom (foldl (\<lambda>m q. m(q_id q \<mapsto> q)) m0 qs) = dom m0 \<union> q_id ` set qs"
  by (induction qs arbitrary: m0) auto

lemma dom_questionsMap: "dom (questionsMap qs) = q_id ` set qs"
  by (simp add: questionsMap_def questionsMap_dom_aux)

lemma countCorrect_le: "countCorrect qm batch \<le> length batch"
  by (simp add: countCorrect_def)

lemma distinct_batch_le:
  assumes "list_all (\<lambda>ad. qm (ad_questionId ad) \<noteq> None) batch"
    and "distinct (map ad_questionId batch)"
    and "dom qm = q_id ` set qs"
  shows "length batch \<le> length qs"
proof -
  from assms(1) have "set (map ad_questionId batch) \<subseteq> dom qm"
    by (auto simp: list_all_iff)
  then have "card (set (map ad_questionId batch)) \<le> card (q_id ` set qs)"
    using assms(3) by (simp add: card_mono)
  moreover have "card (set (map ad_questionId batch)) = length batch"
    using assms(2) distinct_card by fastforce
  moreover have "card (q_id ` set qs) \<le> length qs"
    by (meson card_image_le card_length le_trans List.finite_set)
  ultimately show ?thesis by linarith
qed

text \<open>
  What a graded submission returns: the score counts the entries graded correct, the
  maximum is the one stored with the attempt, and the completed attempt carries the score.
\<close>

lemma submitAnswers_graded:
  assumes "getExamAttempt st i = Some attempt"
    and "submitAnswers st (Some i) (Some batch) now = (st', Graded c saved sc mx)"
  shows "sc = int (countCorrect (questionsMap (getQuestionsByExamId st (a_examId attempt))) batch)"
    and "0 \<le> sc" and "sc \<le> int (length batch)" and "mx = maxScore attempt"
    and "list_all (\<lambda>ad. questionsMap (getQuestionsByExamId st (a_examId attempt))
                          (ad_questionId ad) \<noteq> None) batch"
proof -
  let ?qm = "questionsMap (getQuestionsByExamId st (a_examId attempt))"
  from assms obtain st1 where g: "gradeAnswers st attempt ?qm batch 0 = (st1, Inr sc)"
    and mx: "mx = maxScore attempt"
    by (auto simp: submitAnswers_def Let_def dest: gradeAnswers_Inl
          split: if_splits prod.splits sum.splits option.splits)
  from gradeAnswers_score [OF g]
  show "sc = int (countCorrect ?qm batch)" and "list_all (\<lambda>ad. ?qm (ad_questionId ad) \<noteq> None) batch"
    by simp_all
  then show "0 \<le> sc" and "sc \<le> int (length batch)"
    using countCorrect_le [of ?qm batch] by simp_all
  show "mx = maxScore attempt" by (rule mx)
qed

text \<open>
  With pairwise distinct question ids in the batch, and the maximum score still equal to
  the number of the exam's questions, the score stays within the maximum.
\<close>

lemma score_le_maxScore_distinct:
  assumes "getExamAttempt st i = Some attempt"
    and "maxScore attempt = int (length (getQuestionsByExamId st (a_examId attempt)))"
    and "distinct (map ad_questionId batch)"
    and "submitAnswers st (Some i) (Some batch) now = (st', Graded c saved sc mx)"
  shows "0 \<le> sc \<and> sc \<le> mx"
proof -
  let ?qs = "getQuestionsByExamId st (a_examId attempt)"
  note g = submitAnswers_graded [OF assms(1) assms(4)]
  have "length batch \<le> length ?qs"
    using g(5) assms(3) dom_questionsMap by (rule distinct_batch_le)
  with g(2,3,4) assms(2) show ?thesis by simp
qed

text \<open>A new attempt records the number of the exam's questions as its maximum score.\<close>

lemma startAttempt_maxScore:
  assumes "startAttempt st (Some i) now = (st', Created attempt)"
  shows "maxScore attempt = int (length (getQuestionsByExamId st i))"
    and "getExamAttempt st i' = None \<Longrightarrow> next_attempt_id st = i' \<Longrightarrow> getExamAttempt st' i' = Some attempt"
  using assms
  by (auto simp: startAttempt_def createExamAttempt_def getExam_def getExamAttempt_def Let_def
        find_Some_iff find_None_iff nth_append split: option.splits)

text \<open>A rejected submission leaves the attempts as they were.\<close>

lemma submitAnswers_rejected_attempts:
  assumes "submitAnswers st idParam body now = (st', Rejected code msg)"
  shows "examAttempts st' = examAttempts st"
  using assms
  by (auto simp: submitAnswers_def Let_def dest: gradeAnswers_frame
        split: if_splits prod.splits sum.splits option.splits)

text \<open>
  C10. When the attempt is already completed, a further answer batch is rejected with
  status 400 before anything is graded, and the storage (the attempt's score and maximum
  score, and the stored answers) is returned unchanged.
\<close>

theorem completed_attempt_is_rejected:
  assumes "getExamAttempt st i = Some attempt" and "completedAt attempt = Some t"
  shows "submitAnswers st (Some i) body now
           = (st, Rejected 400 ''Exam attempt already completed'')"
  using assms by (simp add: submitAnswers_def)

theorem completed_attempt_is_rejected_witness:
  "getExamAttempt completed_db 1
     = Some \<lparr>a_id = 1, a_examId = 1, startedAt = 100, completedAt = Some 200,
             score = Some 0, maxScore = 1\<rparr>
   \<and> submitAnswers completed_db (Some 1) (Some [\<lparr>ad_questionId = 1, ad_answer = ''a''\<rparr>]) 300
     = (completed_db, Rejected 400 ''Exam attempt already completed'')"
proof -
  have g: "getExamAttempt completed_db 1
     = Some \<lparr>a_id = 1, a_examId = 1, startedAt = 100, completedAt = Some 200,
             score = Some 0, maxScore = 1\<rparr>"
    by code_simp
  show ?thesis
    using g completed_attempt_is_rejected [OF g, of 200
        "Some [\<lparr>ad_questionId = 1, ad_answer = ''a''\<rparr>]" 300]
    by simp
qed

text \<open>
  C2. A batch whose second entry names a question that is not in the exam: the route
  answers 400, the attempt is left as it was, but the answer of the first entry has
  been saved.
\<close>

theorem unknown_question_keeps_earlier_answers:
  "submitAnswers started_db (Some 1)
       (Some [\<lparr>ad_questionId = 1, ad_answer = ''a''\<rparr>, \<lparr>ad_questionId = 99, ad_answer = ''x''\<rparr>]) 200
     = (started_db\<lparr>answers := [\<lparr>ans_id = 1, attemptId = 1, questionId = 1, answer = ''a'',
                                  isCorrect = Some True\<rparr>],
                   next_answer_id := 2\<rparr>,
        Rejected 400 ''Question with ID 99 not found in this exam'')"
  by code_simp

text \<open>
  C5. A batch that answers the only question of the exam twice: both entries are graded
  correct, so the score is 2 while the maximum score recorded with the attempt is 1.
\<close>

theorem duplicate_answers_exceed_max_score:
  "snd (submitAnswers started_db (Some 1)
       (Some [\<lparr>ad_questionId = 1, ad_answer = ''a''\<rparr>, \<lparr>ad_questionId = 1, ad_answer = ''A''\<rparr>]) 200)
     = Graded \<lparr>a_id = 1, a_examId = 1, startedAt = 100, completedAt = Some 200,
               score = Some 2, maxScore = 1\<rparr>
          [\<lparr>ans_id = 1, attemptId = 1, questionId = 1, answer = ''a'', isCorrect = Some True\<rparr>,
           \<lparr>ans_id = 2, attemptId = 1, questionId = 1, answer = ''A'', isCorrect = Some True\<rparr>]
          2 1"
  by code_simp

section \<open>The mock exam's shape\<close>

text \<open>The loop pushes the questions of the indices below the count, in order.\<close>

lemma mockLoop_map:
  "mockLoop rel config i
     = map (mockQuestion rel config) [i ..< nat \<lceil>questionCount config\<rceil>]"
proof (induction rel config i rule: mockLoop.induct)
  case (1 rel config i)
  show ?case
  proof (cases "of_nat i < questionCount config")
    case True
    then have "int i < \<lceil>questionCount config\<rceil>"
      by (simp add: less_ceiling_iff)
    then have "i < nat \<lceil>questionCount config\<rceil>"
      by simp
    then have "[i ..< nat \<lceil>questionCount config\<rceil>]
                 = i # [i + 1 ..< nat \<lceil>questionCount config\<rceil>]"
      by (simp add: upt_conv_Cons)
    with True "1.IH" show ?thesis
      by (subst mockLoop.simps) simp
  next
    case False
    then have "\<lceil>questionCount config\<rceil> \<le> int i"
      by (simp add: ceiling_le_iff)
    then have "nat \<lceil>questionCount config\<rceil> \<le> i"
      by simp
    with False show ?thesis
      by (subst mockLoop.simps) simp
  qed
qed

lemma mock_questions_map:
  "exam_questions (generateMockExam content config courseTitle)
     = map (mockQuestion (relevantLines content) config) [0 ..< nat \<lceil>questionCount config\<rceil>]"
  by (simp add: generateMockExam_def mockLoop_map)

lemma length_mock_questions:
  "length (exam_questions (generateMockExam content config courseTitle))
     = nat \<lceil>questionCount config\<rceil>"
  by (simp add: mock_questions_map)

lemma nth_mock_question:
  "i < nat \<lceil>questionCount config\<rceil> \<Longrightarrow>
     exam_questions (generateMockExam content config courseTitle) ! i
       = mockQuestion (relevantLines content) config i"
  by (simp add: mock_questions_map)

lemma mockQuestion_type: "g_questionType (mockQuestion rel config i) = type_name (cfg_type config)"
  by (cases "cfg_type config") (simp_all add: mockQuestion_def Let_def)

lemma mockQuestion_difficulty:
  "g_difficulty (mockQuestion rel config i)
     = (if difficulty config = Mixed then [''easy'', ''medium'', ''hard''] ! (i mod 3)
        else difficulty_name (difficulty config))"
  by (cases "cfg_type config") (simp_all add: mockQuestion_def Let_def)

lemma mockQuestion_multiple_choice:
  assumes "cfg_type config = MultipleChoice"
  shows "g_correctAnswer (mockQuestion rel config i) = ''a''"
    and "\<exists>rest. g_options (mockQuestion rel config i)
           = Some (\<lparr>opt_id = ''a'',
                     opt_text = ''The primary framework for understanding ''
                                @ g_topic (mockQuestion rel config i)\<rparr> # rest)"
  using assms by (simp_all add: mockQuestion_def Let_def)

text \<open>
  C6 (as amended). The mock exam has one question for each index 0, 1, 2, ... below
  \<open>questionCount\<close>: as many as the count rounded up to a whole number, and none when the
  count is not positive. So it has exactly \<open>questionCount\<close> questions when the count is a
  whole number that is not negative. Every question has the configured type; its
  difficulty is the configured one, or cycles through easy, medium, hard by position
  modulo 3 when the configuration says mixed; and a multiple-choice question has the
  correct answer a, its first option being option a with the text "The primary framework
  for understanding" its topic.
\<close>

theorem mock_exam_shape:
  "int (length (exam_questions (generateMockExam content config courseTitle)))
           = max 0 \<lceil>questionCount config\<rceil>
       \<and> (\<forall>n. questionCount config = of_nat n \<longrightarrow>
            length (exam_questions (generateMockExam content config courseTitle)) = n)
       \<and> (\<forall>i < length (exam_questions (generateMockExam content config courseTitle)).
            g_questionType (exam_questions (generateMockExam content config courseTitle) ! i)
              = type_name (cfg_type config)
          \<and> g_difficulty (exam_questions (generateMockExam content config courseTitle) ! i)
              = (if difficulty config = Mixed then [''easy'', ''medium'', ''hard''] ! (i mod 3)
                 else difficulty_name (difficulty config))
          \<and> (cfg_type config = MultipleChoice \<longrightarrow>
                g_correctAnswer (exam_questions (generateMockExam content config courseTitle) ! i)
                  = ''a''
              \<and> (\<exists>rest. g_options (exam_questions (generateMockExam content config courseTitle) ! i)
                    = Some (\<lparr>opt_id = ''a'',
                             opt_text = ''The primary framework for understanding ''
                               @ g_topic (exam_questions
                                    (generateMockExam content config courseTitle) ! i)\<rparr>
                            # rest))))"
proof (intro conjI allI impI)
  show "int (length (exam_questions (generateMockExam content config courseTitle)))
          = max 0 \<lceil>questionCount config\<rceil>"
    by (simp add: length_mock_questions)
next
  fix n :: nat
  assume "questionCount config = of_nat n"
  then show "length (exam_questions (generateMockExam content config courseTitle)) = n"
    by (simp add: length_mock_questions)
next
  fix i
  assume "i < length (exam_questions (generateMockExam content config courseTitle))"
  then have i: "i < nat \<lceil>questionCount config\<rceil>"
    by (simp add: length_mock_questions)
  note nth = nth_mock_question [OF i, of content courseTitle]
  show "g_questionType (exam_questions (generateMockExam content config courseTitle) ! i)
          = type_name (cfg_type config)"
    by (simp only: nth mockQuestion_type)
  show "g_difficulty (exam_questions (generateMockExam content config courseTitle) ! i)
          = (if difficulty config = Mixed then [''easy'', ''medium'', ''hard''] ! (i mod 3)
             else difficulty_name (difficulty config))"
    by (simp only: nth mockQuestion_difficulty)
  assume mc: "cfg_type config = MultipleChoice"
  show "g_correctAnswer (exam_questions (generateMockExam content config courseTitle) ! i) = ''a''"
    by (simp only: nth mockQuestion_multiple_choice(1) [OF mc])
  show "\<exists>rest. g_options (exam_questions (generateMockExam content config courseTitle) ! i)
          = Some (\<lparr>opt_id = ''a'',
                   opt_text = ''The primary framework for understanding ''
                     @ g_topic (exam_questions (generateMockExam content config courseTitle) ! i)\<rparr>
                  # rest)"
    unfolding nth by (rule mockQuestion_multiple_choice(2) [OF mc])
qed

theorem mock_exam_shape_witness:
  "questionCount sample_config = of_nat 5
   \<and> cfg_type sample_config = MultipleChoice
   \<and> length (exam_questions (generateMockExam sample_syllabus sample_config ''Data Structures'')) = 5
   \<and> map g_questionType (exam_questions (generateMockExam sample_syllabus sample_config ''Data Structures''))
       = [''multiple-choice'', ''multiple-choice'', ''multiple-choice'', ''multiple-choice'',
          ''multiple-choice'']
   \<and> map g_difficulty (exam_questions (generateMockExam sample_syllabus sample_config ''Data Structures''))
       = [''easy'', ''medium'', ''hard'', ''easy'', ''medium'']
   \<and> map g_correctAnswer (exam_questions (generateMockExam sample_syllabus sample_config ''Data Structures''))
       = [''a'', ''a'', ''a'', ''a'', ''a'']"
proof -
  let ?qs = "exam_questions (generateMockExam sample_syllabus sample_config ''Data Structures'')"
  have c: "questionCount sample_config = of_nat 5"
    by (simp add: sample_config_def)
  have mc: "cfg_type sample_config = MultipleChoice"
    and mixed: "difficulty sample_config = Mixed"
    by (simp_all add: sample_config_def)
  from mock_exam_shape [of sample_syllabus sample_config "''Data Structures''"] c
  have len: "length ?qs = 5"
    by blast
  have idx: "[0 ..< 5] = [0, 1, 2, 3, 4 :: nat]"
    by code_simp
  have five: "nat \<lceil>questionCount sample_config\<rceil> = 5"
    by (simp add: sample_config_def)
  have qs: "?qs = map (mockQuestion (relevantLines sample_syllabus) sample_config) [0, 1, 2, 3, 4]"
    by (simp only: mock_questions_map five idx)
  have t: "map g_questionType ?qs
           = [''multiple-choice'', ''multiple-choice'', ''multiple-choice'', ''multiple-choice'',
              ''multiple-choice'']"
    unfolding qs by (simp add: mockQuestion_type mc)
  have d: "map g_difficulty ?qs = [''easy'', ''medium'', ''hard'', ''easy'', ''medium'']"
    unfolding qs by (simp add: mockQuestion_difficulty mixed)
  have a: "map g_correctAnswer ?qs = [''a'', ''a'', ''a'', ''a'', ''a'']"
    unfolding qs by (simp add: mockQuestion_multiple_choice(1) [OF mc])
  from c mc len t d a show ?thesis
    by simp
qed

text \<open>
  The claim as first stated fails. With the count 5.5, which the route accepts, the loop
  runs for the indices 0 to 5 and the mock exam has 6 questions.
\<close>

theorem mock_exam_fractional_count_counterexample:
  "questionCount fractional_config = 11 / 2
   \<and> 5 \<le> questionCount fractional_config
   \<and> questionCount fractional_config \<le> 50
   \<and> length (exam_questions
        (generateMockExam sample_syllabus fractional_config ''Data Structures'')) = 6"
proof -
  have "\<lceil>11 / 2 :: rat\<rceil> = 6"
    by (simp add: ceiling_unique)
  then show ?thesis
    by (simp add: length_mock_questions fractional_config_def)
qed

section \<open>The exam synthesizer's fallback\<close>

text \<open>When the call of the model throws, the mock exam is returned.\<close>

lemma generateExam_backend_failure:
  assumes "generateContent (examPrompt content config) = Inl aiError"
  shows "generateExam parse generateContent content config filename
           = Mock (generateMockExam content config (extractCourseTitle content filename))"
  using assms by (simp add: generateExam_def Let_def)

text \<open>When the model answers, the result is the parsed response, never the mock exam.\<close>

lemma generateExam_response:
  assumes "generateContent (examPrompt content config) = Inr responseText"
  shows "\<exists>v. generateExam parse generateContent content config filename = Parsed v"
  using assms by (simp add: generateExam_def Let_def)

text \<open>A response without any brace region is read as the text \<open>{}\<close>.\<close>

lemma generateExam_no_json:
  assumes "generateContent (examPrompt content config) = Inr responseText"
    and "json_region responseText = None"
    and "parse ''{}'' = Some (JObj [])"
  shows "generateExam parse generateContent content config filename = Parsed (JObj [])"
  using assms by (simp add: generateExam_def safeJsonParse_def Let_def)

text \<open>
  C1. When the model answers with text whose brace region \<open>JSON.parse\<close> rejects,
  \<open>safeJsonParse\<close> swallows the error and \<open>generateExam\<close> returns the empty object
  \<open>{}\<close>, which has neither a title nor questions, and not the mock exam.
\<close>

theorem generateExam_unparseable_response:
  assumes "generateContent (examPrompt content config) = Inr responseText"
    and "json_region responseText = Some m"
    and "parse m = None"
  shows "generateExam parse generateContent content config filename = Parsed (JObj [])
       \<and> generateExam parse generateContent content config filename
           \<noteq> Mock (generateMockExam content config (extractCourseTitle content filename))"
  using assms by (simp add: generateExam_def safeJsonParse_def Let_def)

theorem generateExam_unparseable_response_witness:
  "json_region ''Sorry, no exam today {try later}'' = Some ''{try later}''
   \<and> parse_empty_object ''{try later}'' = None
   \<and> generateExam parse_empty_object (\<lambda>p. Inr ''Sorry, no exam today {try later}'')
        sample_syllabus sample_config ''notes.txt'' = Parsed (JObj [])"
proof -
  have r: "json_region ''Sorry, no exam today {try later}'' = Some ''{try later}''"
    by code_simp
  have p: "parse_empty_object ''{try later}'' = None"
    by (simp add: parse_empty_object_def)
  show ?thesis
    using r p generateExam_unparseable_response
      [of "\<lambda>p. Inr ''Sorry, no exam today {try later}''" sample_syllabus sample_config
          "''Sorry, no exam today {try later}''" "''{try later}''" parse_empty_object
          "''notes.txt''"]
    by simp
qed

section \<open>The matcher on the label patterns\<close>

lemma rx_match_Star_only: "rx_match [Star p] s = Some [takeWhile p s]"
  by (induction s) simp_all

lemma rx_match_length: "rx_match rx s = Some gs \<Longrightarrow> length gs = length rx"
  by (induction rx s arbitrary: gs rule: rx_match.induct)
     (auto split: if_splits option.splits list.splits)

lemma starts_with_simps [simp]:
  "starts_with p [] = False" "starts_with p (c # t) = p c"
  by (simp_all add: starts_with_def)

lemma not_starts_with_takeWhile: "\<not> starts_with p s \<Longrightarrow> takeWhile p s = []"
  by (cases s) simp_all

lemma rx_match_Plus_only:
  "rx_match [Plus p] s = (if starts_with p s then Some [takeWhile p s] else None)"
  by (cases s) (simp_all add: rx_match_Star_only)

lemma rx_match_Star_Plus:
  assumes sub: "\<And>c. sp c \<Longrightarrow> cls c"
  shows "rx_match [Star sp, Plus cls] s =
           (if starts_with cls (dropWhile sp s)
            then Some [takeWhile sp s, takeWhile cls (dropWhile sp s)]
            else if takeWhile sp s \<noteq> []
            then Some [butlast (takeWhile sp s), [last (takeWhile sp s)]]
            else None)"
proof (induction s)
  case Nil
  then show ?case by simp
next
  case (Cons c t)
  show ?case
  proof (cases "sp c")
    case False
    then show ?thesis by (simp add: rx_match_Star_only)
  next
    case True
    note spc = this
    show ?thesis
    proof (cases "starts_with cls (dropWhile sp t)")
      case True
      with spc Cons.IH show ?thesis by simp
    next
      case False
      note nocls = this
      show ?thesis
      proof (cases "takeWhile sp t = []")
        case False
        with spc nocls Cons.IH show ?thesis by simp
      next
        case True
        then have "dropWhile sp t = t"
          by (cases t) (auto split: if_splits)
        with nocls have "takeWhile cls t = []"
          by (simp add: not_starts_with_takeWhile)
        with spc nocls True Cons.IH sub [OF spc] show ?thesis
          by (simp add: rx_match_Star_only)
      qed
    qed
  qed
qed

lemma map_option_append_Nil: "map_option ((@) []) m = m"
  by (cases m) simp_all

lemma rx_match_literal:
  "rx_match (map (\<lambda>c. One (ci c)) label @ rest) s =
     (if length label \<le> length s \<and> toLowerCase (take (length label) s) = label
      then map_option ((@) (map (\<lambda>c. [c]) (take (length label) s)))
             (rx_match rest (drop (length label) s))
      else None)"
proof (induction label arbitrary: s)
  case Nil
  show ?case by (simp add: map_option_append_Nil)
next
  case (Cons a label)
  show ?case
  proof (cases s)
    case Nil
    then show ?thesis by simp
  next
    case (Cons d t)
    have head: "rx_match (map (\<lambda>c. One (ci c)) (a # label) @ rest) (d # t) =
                  (if toLowerChar d = a
                   then map_option ((#) [d]) (rx_match (map (\<lambda>c. One (ci c)) label @ rest) t)
                   else None)"
      by (simp add: ci_def)
    show ?thesis
      unfolding Cons head Cons.IH
      by (simp add: toLowerCase_def option.map_comp comp_def)
  qed
qed

lemma colon_not_class: "\<not> is_space CHR '':''" "\<not> title_class CHR '':''"
  by (simp_all add: is_space_def title_class_def is_ascii_letter_def is_digit_def)

lemma is_space_title_class: "is_space c \<Longrightarrow> title_class c"
  by (simp add: title_class_def)

text \<open>The capture of \<open>\\s*([a-z0-9\\s]+)\<close>.\<close>

lemma space_capture:
  "map_option last (rx_match [Star is_space, Plus title_class] s) =
     (if starts_with title_class (dropWhile is_space s)
      then Some (takeWhile title_class (dropWhile is_space s))
      else if takeWhile is_space s \<noteq> [] then Some [last (takeWhile is_space s)]
      else None)"
  by (simp add: rx_match_Star_Plus [of is_space title_class, OF is_space_title_class])

lemma last_after_prefix:
  assumes "rx \<noteq> []"
  shows "map_option last (map_option ((@) pre) (rx_match rx s)) = map_option last (rx_match rx s)"
proof (cases "rx_match rx s")
  case None
  then show ?thesis by simp
next
  case (Some gs)
  with assms rx_match_length [OF Some] have "gs \<noteq> []" by auto
  with Some show ?thesis by simp
qed

text \<open>The capture of \<open>:?\\s*([a-z0-9\\s]+)\<close>.\<close>

lemma rx_match_Opt_skip:
  "\<not> p c \<Longrightarrow> rx_match (Opt p # rx) (c # t) = map_option ((#) []) (rx_match rx (c # t))"
  by simp

lemma rx_match_Opt_take:
  "p c \<Longrightarrow> rx_match (Opt p # rx) (c # t) =
     (case rx_match rx t of
        Some gs \<Rightarrow> Some ([c] # gs)
      | None \<Rightarrow> map_option ((#) []) (rx_match rx (c # t)))"
  by simp

lemma tail_capture:
  "map_option last
     (rx_match [Opt (\<lambda>c. c = CHR '':''), Star is_space, Plus title_class] r) =
     (let r1 = (case r of [] \<Rightarrow> [] | c # t \<Rightarrow> if c = CHR '':'' then t else r)
      in if starts_with title_class (dropWhile is_space r1)
         then Some (takeWhile title_class (dropWhile is_space r1))
         else if takeWhile is_space r1 \<noteq> [] then Some [last (takeWhile is_space r1)]
         else None)"
proof (cases r)
  case Nil
  then show ?thesis by simp
next
  case (Cons c t)
  let ?sp = "rx_match [Star is_space, Plus title_class]"
  have drop_first: "map_option last (map_option ((#) g) (?sp u)) = map_option last (?sp u)"
    for g u
    using last_after_prefix [of "[Star is_space, Plus title_class]" "[g]" u]
    by (simp add: option.map_comp comp_def del: rx_match.simps)
  show ?thesis
  proof (cases "c = CHR '':''")
    case False
    then have "map_option last
        (rx_match [Opt (\<lambda>c. c = CHR '':''), Star is_space, Plus title_class] (c # t))
        = map_option last (?sp (c # t))"
      by (simp add: rx_match_Opt_skip drop_first del: rx_match.simps)
    with Cons False show ?thesis
      by (simp add: space_capture del: rx_match.simps)
  next
    case True
    have no: "?sp (CHR '':'' # t) = None"
      by (simp add: rx_match_Star_Plus [of is_space title_class, OF is_space_title_class]
            colon_not_class del: rx_match.simps)
    have "map_option last
        (rx_match [Opt (\<lambda>c. c = CHR '':''), Star is_space, Plus title_class] (CHR '':'' # t))
        = map_option last (?sp t)"
    proof (cases "?sp t")
      case None
      with no show ?thesis
        by (simp add: rx_match_Opt_take del: rx_match.simps)
    next
      case (Some gs)
      with rx_match_length [OF Some] have "gs \<noteq> []" by auto
      with Some show ?thesis
        by (simp add: rx_match_Opt_take del: rx_match.simps)
    qed
    with Cons True show ?thesis
      by (simp add: space_capture del: rx_match.simps)
  qed
qed

lemma rx_match_label_rx: "map_option last (rx_match (label_rx label) s) = capture_at label s"
  unfolding label_rx_def rx_match_literal capture_at_def
  by (simp add: last_after_prefix tail_capture Let_def)

lemma rx_search_label_rx: "map_option last (rx_search (label_rx label) s) = label_capture label s"
proof (induction s)
  case Nil
  show ?case by (simp add: rx_match_label_rx)
next
  case (Cons c s)
  have "label_capture label (c # s) =
          (case map_option last (rx_match (label_rx label) (c # s)) of
             Some cap \<Rightarrow> Some cap
           | None \<Rightarrow> label_capture label s)"
    by (simp add: rx_match_label_rx)
  with Cons.IH show ?case
    by (cases "rx_match (label_rx label) (c # s)") simp_all
qed

lemma courseMatch_deciding:
  "deciding_capture text = map_option last (courseMatch text)"
  unfolding courseMatch_def deciding_capture_def
  by (simp add: rx_search_label_rx [symmetric] split: option.splits)

section \<open>The course title\<close>

text \<open>
  C8 (as amended). The title is taken from the first 10 lines of the syllabus, joined by
  spaces. The labels course, title and syllabus are tried in this order, in any mix of
  cases and with the colon optional; the first label that matches anywhere decides, and
  the title is its capture, trimmed. When no label matches, or the capture of the deciding
  label is blank, the title is the file name without a final .pdf, .docx or .txt (in any
  mix of cases) and with every underscore replaced by a space.
\<close>

theorem course_title_described:
  "extractCourseTitle content filename = described_title content filename"
proof -
  have "described_title content filename =
          (case map_option last (courseMatch (firstLines content)) of
             None \<Rightarrow> filename_title filename
           | Some cap \<Rightarrow> if js_trim cap = [] then filename_title filename else js_trim cap)"
    by (simp add: described_title_def firstLines_def courseMatch_deciding)
  then show ?thesis
    by (cases "courseMatch (firstLines content)") (simp_all add: extractCourseTitle_def)
qed

text \<open>
  The claim as first stated fails. In this syllabus the label title has the capture
  "Algorithms", but the label course matches first, with a blank capture, and the title
  is taken from the file name.
\<close>

theorem course_title_first_capture_counterexample:
  "map_option (js_trim \<circ> last) (rx_search (label_rx ''course'') (firstLines two_label_syllabus))
     = Some []
   \<and> map_option (js_trim \<circ> last) (rx_search (label_rx ''title'') (firstLines two_label_syllabus))
     = Some ''Algorithms''
   \<and> extractCourseTitle two_label_syllabus ''algo_notes.pdf'' = ''algo notes''"
  by code_simp

section \<open>Lines of a text and of its prefixes\<close>

lemma split_lines_not_Nil [simp]: "split_lines s \<noteq> []"
  by (induction s) (auto split: list.splits)

lemma split_lines_no_feed:
  "CHR 0x0A \<notin> set s \<Longrightarrow> split_lines s = [s]"
  by (induction s) auto

lemma split_lines_feed:
  "CHR 0x0A \<notin> set l \<Longrightarrow> split_lines (l @ CHR 0x0A # s) = l # split_lines s"
  by (induction l) auto

lemma split_lines_append:
  "split_lines (p @ r) =
     butlast (split_lines p) @ (last (split_lines p) @ hd (split_lines r)) # tl (split_lines r)"
proof (induction p)
  case Nil
  then show ?case by simp
next
  case (Cons c p)
  show ?case
  proof (cases "c = CHR 0x0A")
    case True
    with Cons show ?thesis by simp
  next
    case False
    obtain l ls where sl: "split_lines p = l # ls"
      by (cases "split_lines p") simp_all
    show ?thesis
    proof (cases ls)
      case Nil
      with False sl Cons show ?thesis by simp
    next
      case (Cons l' ls')
      with False sl Cons.IH show ?thesis by simp
    qed
  qed
qed

lemma split_lines_prefix:
  "\<exists>rest. split_lines (p @ r) = complete_lines p @ rest \<and> rest \<noteq> []"
  unfolding complete_lines_def by (subst split_lines_append) blast

lemma take_complete_lines:
  assumes "n \<le> length (complete_lines (take k x))"
  shows "take n (split_lines x) = take n (complete_lines (take k x))"
proof -
  from split_lines_prefix [of "take k x" "drop k x"]
  obtain rest where "split_lines x = complete_lines (take k x) @ rest"
    by auto
  with assms show ?thesis by simp
qed

lemma firstLines_prefix:
  assumes "take k x = take k y" and "10 \<le> length (complete_lines (take k x))"
  shows "firstLines x = firstLines y"
  using assms take_complete_lines [of 10 k x] take_complete_lines [of 10 k y]
  by (simp add: firstLines_def)

lemma relevantLines_prefix_aux:
  assumes "10 < length (filter isTopicLine (complete_lines (take k x)))"
  shows "relevantLines x = take 10 (filter isTopicLine (complete_lines (take k x)))"
proof -
  from split_lines_prefix [of "take k x" "drop k x"]
  obtain rest where "split_lines x = complete_lines (take k x) @ rest"
    by auto
  with assms show ?thesis
    by (simp add: relevantLines_def Let_def)
qed

lemma relevantLines_prefix:
  assumes "take k x = take k y"
    and "10 < length (filter isTopicLine (complete_lines (take k x)))"
  shows "relevantLines x = relevantLines y"
  using assms relevantLines_prefix_aux [of k x] relevantLines_prefix_aux [of k y]
  by simp

section \<open>What the text past the prefix can change\<close>

text \<open>
  C7 (as amended). The title and the mock exam are computed from the whole syllabus;
  only the request to the model is built from its first 15000 characters. So for two
  texts that agree on their first 15000 characters: the request is the same; the title
  is the same provided at least 10 lines end inside that prefix; and the questions of the
  mock exam, hence its topics, are the same provided more than 10 topic lines end inside
  that prefix.
\<close>

theorem truncation_stability:
  assumes "take 15000 x = take 15000 y"
  shows "examPrompt x config = examPrompt y config
       \<and> (10 \<le> length (complete_lines (take 15000 x)) \<longrightarrow>
            extractCourseTitle x filename = extractCourseTitle y filename)
       \<and> (10 < length (filter isTopicLine (complete_lines (take 15000 x))) \<longrightarrow>
            exam_questions (generateMockExam x config t)
              = exam_questions (generateMockExam y config t'))"
proof (intro conjI impI)
  show "examPrompt x config = examPrompt y config"
    using assms by (simp add: examPrompt_def)
next
  assume "10 \<le> length (complete_lines (take 15000 x))"
  with assms have "firstLines x = firstLines y"
    by (rule firstLines_prefix)
  then show "extractCourseTitle x filename = extractCourseTitle y filename"
    by (simp add: extractCourseTitle_def)
next
  assume "10 < length (filter isTopicLine (complete_lines (take 15000 x)))"
  with assms have "relevantLines x = relevantLines y"
    by (rule relevantLines_prefix)
  then show "exam_questions (generateMockExam x config t)
               = exam_questions (generateMockExam y config t')"
    by (simp add: generateMockExam_def)
qed


theorem truncation_stability_witness:
  "take 15000 stable_syllabus_a = take 15000 stable_syllabus_b
   \<and> stable_syllabus_a \<noteq> stable_syllabus_b
   \<and> examPrompt stable_syllabus_a sample_config = examPrompt stable_syllabus_b sample_config
   \<and> extractCourseTitle stable_syllabus_a ''notes.txt''
       = extractCourseTitle stable_syllabus_b ''notes.txt''
   \<and> exam_questions (generateMockExam stable_syllabus_a sample_config ''Algebra'')
       = exam_questions (generateMockExam stable_syllabus_b sample_config ''Topology'')"
proof -
  have len: "length numbered_header = 99"
    by code_simp
  have ta: "take 15000 stable_syllabus_a = numbered_header @ replicate 14901 CHR ''x''"
    by (simp add: stable_syllabus_a_def len)
  have tb: "take 15000 stable_syllabus_b = numbered_header @ replicate 14901 CHR ''x''"
    by (simp add: stable_syllabus_b_def len)
  have eq: "take 15000 stable_syllabus_a = take 15000 stable_syllabus_b"
    by (simp only: ta tb)
  have ne: "stable_syllabus_a \<noteq> stable_syllabus_b"
    by (simp add: stable_syllabus_a_def stable_syllabus_b_def)
  have sh: "split_lines numbered_header = replicate 11 ''1. Topic'' @ [[]]"
    by code_simp
  have cl: "complete_lines (take 15000 stable_syllabus_a) = replicate 11 ''1. Topic''"
    unfolding ta complete_lines_def split_lines_append sh
    by (simp add: split_lines_no_feed)
  have tl: "isTopicLine ''1. Topic''"
    by code_simp
  have c1: "10 \<le> length (complete_lines (take 15000 stable_syllabus_a))"
    by (simp add: cl)
  have c2: "10 < length (filter isTopicLine (complete_lines (take 15000 stable_syllabus_a)))"
    by (simp add: cl tl)
  show ?thesis
    using eq ne c1 c2
      truncation_stability [OF eq, of sample_config "''notes.txt''" "''Algebra''" "''Topology''"]
    by simp
qed

section \<open>A second line past the prefix\<close>

lemma rx_search_skip:
  assumes "\<And>t. rx_match rx (x # t) = None"
  shows "rx_search rx (replicate n x @ s) = rx_search rx s"
  by (induction n) (simp_all add: assms)

lemma label_rx_other_letter:
  "toLowerChar x \<noteq> a \<Longrightarrow> rx_match (label_rx (a # label)) (x # t) = None"
  by (simp add: label_rx_def ci_def)

lemma courseMatch_skip_x:
  "courseMatch (replicate n CHR ''x'' @ s) = courseMatch s"
proof -
  have lo: "toLowerChar CHR ''x'' = CHR ''x''"
    by code_simp
  have c: "rx_search (label_rx ''course'') (replicate n CHR ''x'' @ s)
          = rx_search (label_rx ''course'') s"
    by (rule rx_search_skip) (simp add: label_rx_other_letter lo)
  have t: "rx_search (label_rx ''title'') (replicate n CHR ''x'' @ s)
          = rx_search (label_rx ''title'') s"
    by (rule rx_search_skip) (simp add: label_rx_other_letter lo)
  have y: "rx_search (label_rx ''syllabus'') (replicate n CHR ''x'' @ s)
          = rx_search (label_rx ''syllabus'') s"
    by (rule rx_search_skip) (simp add: label_rx_other_letter lo)
  show ?thesis
    unfolding courseMatch_def by (simp only: c t y)
qed

lemma str_includes_other_letter:
  "x \<noteq> a \<Longrightarrow> \<not> str_includes (replicate n x) (a # needle)"
  by (induction n) simp_all

lemma not_isTopicLine_x: "\<not> isTopicLine (replicate n CHR ''x'')"
proof -
  have "\<not> is_digit CHR ''x''"
    by code_simp
  then have "rx_match [Plus is_digit, One (\<lambda>c. c = CHR ''.'')] (replicate n CHR ''x'') = None"
    by (cases n) simp_all
  then show ?thesis
    by (simp add: isTopicLine_def str_includes_other_letter)
qed

lemma title_long_syllabus: "extractCourseTitle long_syllabus ''notes.txt'' = ''notes''"
proof -
  have "split_lines long_syllabus = [long_syllabus]"
    by (simp add: long_syllabus_def split_lines_no_feed)
  then have "firstLines long_syllabus = replicate 15000 CHR ''x'' @ []"
    by (simp add: firstLines_def long_syllabus_def)
  then have "courseMatch (firstLines long_syllabus) = courseMatch []"
    by (simp only: courseMatch_skip_x)
  moreover have "courseMatch [] = None"
    by code_simp
  moreover have "filename_title ''notes.txt'' = ''notes''"
    by code_simp
  ultimately show ?thesis
    by (simp add: extractCourseTitle_def)
qed

lemma lines_extended_syllabus:
  "split_lines extended_syllabus = [long_syllabus, ''course: Biology'']"
proof -
  have "split_lines ''course: Biology'' = [''course: Biology'']"
    by code_simp
  then show ?thesis
    by (simp add: extended_syllabus_def long_syllabus_def split_lines_feed)
qed

lemma title_extended_syllabus: "extractCourseTitle extended_syllabus ''notes.txt'' = ''Biology''"
proof -
  have "firstLines extended_syllabus = replicate 15000 CHR ''x'' @ '' course: Biology''"
    by (simp add: firstLines_def lines_extended_syllabus long_syllabus_def)
  then have "courseMatch (firstLines extended_syllabus) = courseMatch '' course: Biology''"
    by (simp only: courseMatch_skip_x)
  moreover have "map_option (js_trim \<circ> last) (courseMatch '' course: Biology'') = Some ''Biology''"
    by code_simp
  ultimately show ?thesis
    by (auto simp: extractCourseTitle_def)
qed

lemma relevantLines_long_syllabus: "relevantLines long_syllabus = [long_syllabus]"
proof -
  have "split_lines long_syllabus = [long_syllabus]"
    by (simp add: long_syllabus_def split_lines_no_feed)
  moreover have "\<not> isTopicLine long_syllabus"
    by (simp add: long_syllabus_def not_isTopicLine_x)
  ultimately show ?thesis
    by (simp add: relevantLines_def)
qed

lemma relevantLines_extended_syllabus:
  "relevantLines extended_syllabus = [long_syllabus, ''course: Biology'']"
proof -
  have "\<not> isTopicLine long_syllabus"
    by (simp add: long_syllabus_def not_isTopicLine_x)
  moreover have "\<not> isTopicLine ''course: Biology''"
    by code_simp
  ultimately show ?thesis
    by (simp add: relevantLines_def lines_extended_syllabus)
qed

lemma mockQuestion_topic:
  "g_topic (mockQuestion rel config i) =
     (let baseText = (if length rel > i then rel ! i
                      else subjectAreas ! (i mod length subjectAreas))
      in if length baseText > 30 then js_trim (take 30 baseText) @ ''...''
         else js_trim baseText)"
  by (cases "cfg_type config") (simp_all add: mockQuestion_def Let_def)

lemma second_topic:
  assumes "1 < nat \<lceil>questionCount config\<rceil>"
  shows "g_topic (exam_questions (generateMockExam content config t) ! 1)
           = g_topic (mockQuestion (relevantLines content) config 1)"
  using assms by (simp add: nth_mock_question)

text \<open>
  The claim as first stated fails. The two texts agree on their first 15000 characters,
  which hold no line feed; the second line of the longer text gives it another title and
  another topic for the second mock question.
\<close>

theorem truncation_stability_counterexample:
  "take 15000 long_syllabus = take 15000 extended_syllabus
   \<and> extractCourseTitle long_syllabus ''notes.txt'' = ''notes''
   \<and> extractCourseTitle extended_syllabus ''notes.txt'' = ''Biology''
   \<and> g_topic (exam_questions (generateMockExam long_syllabus sample_config ''notes'') ! 1)
       = ''Key Principles''
   \<and> g_topic (exam_questions (generateMockExam extended_syllabus sample_config ''Biology'') ! 1)
       = ''course: Biology''"
proof -
  have pre: "take 15000 long_syllabus = take 15000 extended_syllabus"
    by (simp add: extended_syllabus_def long_syllabus_def)
  have n: "1 < nat \<lceil>questionCount sample_config\<rceil>"
    by (simp add: sample_config_def)
  have k: "js_trim ''Key Principles'' = ''Key Principles''"
    by code_simp
  have b: "js_trim ''course: Biology'' = ''course: Biology''"
    by code_simp
  have t1: "g_topic (mockQuestion [long_syllabus] sample_config 1) = ''Key Principles''"
    by (simp add: mockQuestion_topic subjectAreas_def k)
  have t2: "g_topic (mockQuestion [long_syllabus, ''course: Biology''] sample_config 1)
              = ''course: Biology''"
    by (simp add: mockQuestion_topic b)
  show ?thesis
    by (simp only: pre title_long_syllabus title_extended_syllabus second_topic [OF n]
          relevantLines_long_syllabus relevantLines_extended_syllabus t1 t2 simp_thms)
qed

end
